theory Spec2Isabelle
  imports Complex_Main
begin

section \<open>Python exceptions\<close>

text \<open>
  The exceptions the two components can meet. \<open>OSError\<close> stands for the class and all its
  subclasses (\<open>FileNotFoundError\<close>, \<open>PermissionError\<close>, \<open>IsADirectoryError\<close>, and
  \<open>WindowsError\<close>, which is an alias of \<open>OSError\<close>); \<open>AttributeError\<close> is raised by an
  attribute access on \<open>None\<close>. Both are subclasses of \<open>Exception\<close>, which is what the
  outer handlers of the source catch.
\<close>

datatype exn = OSError | AttributeError

definition is_WindowsError :: "exn \<Rightarrow> bool" where
  "is_WindowsError e = (e = OSError)"

section \<open>SpeedMonitor\<close>

text \<open>
  \<open>psutil.net_io_counters()\<close> returns a named tuple of cumulative counters (Python
  integers), returns \<open>None\<close> on a machine without network interfaces, or raises.
  \<open>time.time()\<close> returns a float; floats are idealised as real numbers, so every
  statement below is about the arithmetic the code writes down, not about rounding.
\<close>

record net_io =
  bytes_sent :: int
  bytes_recv :: int

record speed_monitor =
  upload_speed :: real
  download_speed :: real
  last_upload :: int
  last_download :: int
  last_time :: real

text \<open>
  \<open>SpeedMonitor.__init__\<close>: the clock is read, then the counters; a failing read is
  logged and raised again.
\<close>

definition SpeedMonitor_init :: "real \<Rightarrow> exn + net_io option \<Rightarrow> exn + speed_monitor" where
  "SpeedMonitor_init now r =
     (case r of
        Inl e \<Rightarrow> Inl e
      | Inr None \<Rightarrow> Inl AttributeError
      | Inr (Some io) \<Rightarrow>
          Inr \<lparr>upload_speed = 0, download_speed = 0,
               last_upload = bytes_sent io, last_download = bytes_recv io,
               last_time = now\<rparr>)"

text \<open>
  The body of the \<open>try\<close> block of \<open>SpeedMonitor.update_speed\<close>. The result is the
  outcome of the block (an exception, or normal completion), the monitor as the block
  leaves it, and the list of \<open>speed_updated\<close> emissions, each a pair
  (upload speed, download speed) in the order of the signal's arguments.
  The arguments \<open>r\<close> and \<open>now\<close> are what \<open>psutil.net_io_counters()\<close> and
  \<open>time.time()\<close> give in this call.
\<close>

definition update_speed_try ::
  "speed_monitor \<Rightarrow> exn + net_io option \<Rightarrow> real \<Rightarrow> (exn + unit) \<times> speed_monitor \<times> (real \<times> real) list" where
  "update_speed_try s r current_time =
     (case r of
        Inl e \<Rightarrow> (Inl e, s, [])
      | Inr net \<Rightarrow>
          (let time_diff = current_time - last_time s in
           if time_diff < 0.1 then (Inr (), s, [])
           else
             (case net of
                None \<Rightarrow> (Inl AttributeError, s, [])
              | Some io \<Rightarrow>
                  (let upload_diff = bytes_sent io - last_upload s;
                       download_diff = bytes_recv io - last_download s;
                       s1 = s\<lparr>upload_speed := real_of_int upload_diff / time_diff / 1024\<rparr>;
                       s2 = s1\<lparr>download_speed := real_of_int download_diff / time_diff / 1024\<rparr>;
                       s3 = s2\<lparr>last_upload := bytes_sent io\<rparr>;
                       s4 = s3\<lparr>last_download := bytes_recv io\<rparr>;
                       s5 = s4\<lparr>last_time := current_time\<rparr>
                   in (Inr (), s5, [(upload_speed s5, download_speed s5)])))))"

text \<open>
  \<open>SpeedMonitor.update_speed\<close>: the handler \<open>except Exception\<close> logs and returns, so
  the caller sees the monitor and the emissions, never the exception.
\<close>

definition update_speed ::
  "speed_monitor \<Rightarrow> exn + net_io option \<Rightarrow> real \<Rightarrow> speed_monitor \<times> (real \<times> real) list" where
  "update_speed s r current_time = snd (update_speed_try s r current_time)"

section \<open>The operating system's stores\<close>

text \<open>
  \<open>AutoStartManager\<close> keeps no state of its own: the three fields are fixed by
  \<open>__init__\<close> (\<open>app_path\<close> is \<open>os.path.abspath(sys.argv[0])\<close>, \<open>system\<close> is
  \<open>platform.system()\<close>), and every operation reads or writes the operating system.
\<close>

record manager =
  app_name :: string
  app_path :: string
  system :: string

text \<open>
  The part of the operating system the manager touches:
  \<^item> \<open>run_key\<close>: the values of \<open>HKCU\Software\Microsoft\Windows\CurrentVersion\Run\<close>, by
    name; \<open>None\<close> when \<open>winreg.OpenKey\<close> raises for this key (it is missing or refused);
  \<^item> \<open>home\<close>: the home directory \<open>os.path.expanduser\<close> finds, if it finds one;
  \<^item> \<open>fs\<close>: the file system, a map from path strings to directories and regular
    files (contents and permission bits);
  \<^item> \<open>denied\<close>: the paths at which creating, writing, changing or removing an entry is
    refused with \<open>PermissionError\<close>;
  \<^item> \<open>launchd\<close>: the property lists loaded into the launch daemon.
  Nothing else changes the stores between two calls.
\<close>

datatype reg_value = REG_SZ string | REG_DWORD nat

datatype node = Dir | File string nat

record os_store =
  run_key :: "(string \<rightharpoonup> reg_value) option"
  home :: "string option"
  fs :: "string \<rightharpoonup> node"
  denied :: "string set"
  launchd :: "string set"

subsection \<open>winreg\<close>

datatype access = KEY_READ | KEY_WRITE

datatype hkey = Run_handle

text \<open>
  \<open>winreg.OpenKey(HKEY_CURRENT_USER, r"Software\...\Run", 0, access)\<close>. A key that opens
  is taken to open for either access.
\<close>

definition OpenKey :: "os_store \<Rightarrow> access \<Rightarrow> exn + hkey" where
  "OpenKey st a = (case run_key st of None \<Rightarrow> Inl OSError | Some k \<Rightarrow> Inr Run_handle)"

definition QueryValueEx :: "os_store \<Rightarrow> hkey \<Rightarrow> string \<Rightarrow> exn + reg_value" where
  "QueryValueEx st key name =
     (case run_key st of
        None \<Rightarrow> Inl OSError
      | Some k \<Rightarrow> (case k name of None \<Rightarrow> Inl OSError | Some v \<Rightarrow> Inr v))"

definition SetValueEx :: "os_store \<Rightarrow> hkey \<Rightarrow> string \<Rightarrow> reg_value \<Rightarrow> exn + os_store" where
  "SetValueEx st key name v =
     (case run_key st of
        None \<Rightarrow> Inl OSError
      | Some k \<Rightarrow> Inr (st\<lparr>run_key := Some (k(name \<mapsto> v))\<rparr>))"

definition DeleteValue :: "os_store \<Rightarrow> hkey \<Rightarrow> string \<Rightarrow> exn + os_store" where
  "DeleteValue st key name =
     (case run_key st of
        None \<Rightarrow> Inl OSError
      | Some k \<Rightarrow>
          (case k name of
             None \<Rightarrow> Inl OSError
           | Some v \<Rightarrow> Inr (st\<lparr>run_key := Some (k(name := None))\<rparr>)))"

subsection \<open>os and os.path (POSIX)\<close>

definition rstrip_slash :: "string \<Rightarrow> string" where
  "rstrip_slash u = rev (dropWhile (\<lambda>c. c = CHR ''/'') (rev u))"

text \<open>
  \<open>os.path.expanduser\<close>: a path that begins with \<open>~\<close> alone or \<open>~/\<close> has the \<open>~\<close>
  replaced by the home directory without its trailing slashes; when no home directory is
  found the path is returned unchanged. The \<open>~user\<close> form, which the source never passes,
  is left unchanged.
\<close>

fun expanduser_in :: "string option \<Rightarrow> string \<Rightarrow> string" where
  "expanduser_in h [] = []"
| "expanduser_in h (c # cs) =
     (if c = CHR ''~'' \<and> (case cs of [] \<Rightarrow> True | d # ds \<Rightarrow> d = CHR ''/'') then
        (case h of
           None \<Rightarrow> c # cs
         | Some userhome \<Rightarrow>
             (let p = rstrip_slash userhome @ cs in if p = [] then ''/'' else p))
      else c # cs)"

definition expanduser :: "os_store \<Rightarrow> string \<Rightarrow> string" where
  "expanduser st p = expanduser_in (home st) p"

text \<open>\<open>os.path.join\<close> with two arguments: an absolute second argument discards the first.\<close>

definition join :: "string \<Rightarrow> string \<Rightarrow> string" where
  "join a b =
     (if b \<noteq> [] \<and> hd b = CHR ''/'' then b
      else if a = [] \<or> last a = CHR ''/'' then a @ b
      else a @ ''/'' @ b)"

definition path_exists :: "os_store \<Rightarrow> string \<Rightarrow> bool" where
  "path_exists st p = (fs st p \<noteq> None)"

definition makedirs :: "os_store \<Rightarrow> string \<Rightarrow> exn + os_store" where
  "makedirs st p =
     (if fs st p \<noteq> None then Inl OSError
      else if p \<in> denied st then Inl OSError
      else Inr (st\<lparr>fs := (fs st)(p \<mapsto> Dir)\<rparr>))"

text \<open>
  \<open>with open(p, "w") as f: f.write(text)\<close>: the file is created (permission bits
  \<open>0o644\<close>, that is 420) or truncated, and holds \<open>text\<close> afterwards.
\<close>

definition open_w :: "os_store \<Rightarrow> string \<Rightarrow> string \<Rightarrow> exn + os_store" where
  "open_w st p text =
     (if p \<in> denied st then Inl OSError
      else
        (case fs st p of
           None \<Rightarrow> Inr (st\<lparr>fs := (fs st)(p \<mapsto> File text 420)\<rparr>)
         | Some Dir \<Rightarrow> Inl OSError
         | Some (File old mode) \<Rightarrow> Inr (st\<lparr>fs := (fs st)(p \<mapsto> File text mode)\<rparr>)))"

definition chmod :: "os_store \<Rightarrow> string \<Rightarrow> nat \<Rightarrow> exn + os_store" where
  "chmod st p mode =
     (case fs st p of
        None \<Rightarrow> Inl OSError
      | Some Dir \<Rightarrow> (if p \<in> denied st then Inl OSError else Inr st)
      | Some (File text old) \<Rightarrow>
          (if p \<in> denied st then Inl OSError
           else Inr (st\<lparr>fs := (fs st)(p \<mapsto> File text mode)\<rparr>)))"

definition remove :: "os_store \<Rightarrow> string \<Rightarrow> exn + os_store" where
  "remove st p =
     (case fs st p of
        None \<Rightarrow> Inl OSError
      | Some Dir \<Rightarrow> Inl OSError
      | Some (File text mode) \<Rightarrow>
          (if p \<in> denied st then Inl OSError
           else Inr (st\<lparr>fs := (fs st)(p := None)\<rparr>)))"

text \<open>
  \<open>os.system("launchctl load p")\<close> and \<open>os.system("launchctl unload p")\<close>: the exit status
  is ignored by the source and nothing is raised.
\<close>

definition launchctl_load :: "os_store \<Rightarrow> string \<Rightarrow> os_store" where
  "launchctl_load st p = st\<lparr>launchd := insert p (launchd st)\<rparr>"

definition launchctl_unload :: "os_store \<Rightarrow> string \<Rightarrow> os_store" where
  "launchctl_unload st p = st\<lparr>launchd := launchd st - {p}\<rparr>"

section \<open>AutoStartManager\<close>

definition desktop_entry :: "manager \<Rightarrow> string" where
  "desktop_entry m =
     ''[Desktop Entry]\<newline>Type=Application\<newline>Name='' @ app_name m @
     ''\<newline>Exec='' @ app_path m @
     ''\<newline>Terminal=false\<newline>Hidden=false\<newline>X-GNOME-Autostart-enabled=true\<newline>''"

definition plist_text :: "manager \<Rightarrow> string" where
  \<open>plist_text m =
     ''<?xml version="1.0" encoding="UTF-8"?>\<newline>'' @
     ''<!DOCTYPE plist PUBLIC "-//Apple//DTD PLIST 1.0//EN" "http://www.apple.com/DTDs/PropertyList-1.0.dtd">\<newline>'' @
     ''<plist version="1.0">\<newline><dict>\<newline>    <key>Label</key>\<newline>    <string>com.'' @ app_name m @
     ''</string>\<newline>    <key>ProgramArguments</key>\<newline>    <array>\<newline>        <string>'' @ app_path m @
     ''</string>\<newline>    </array>\<newline>    <key>RunAtLoad</key>\<newline>    <true/>\<newline></dict>\<newline></plist>\<newline>''\<close>

text \<open>The body of the \<open>try\<close> block of \<open>AutoStartManager.is_enabled\<close>.\<close>

definition is_enabled_try :: "manager \<Rightarrow> os_store \<Rightarrow> exn + bool" where
  "is_enabled_try m st =
     (if system m = ''Windows'' then
        (case OpenKey st KEY_READ of
           Inl e \<Rightarrow> Inl e
         | Inr key \<Rightarrow>
             (case QueryValueEx st key (app_name m) of
                Inr v \<Rightarrow> Inr (v = REG_SZ (app_path m))
              | Inl e \<Rightarrow> (if is_WindowsError e then Inr False else Inl e)))
      else if system m = ''Linux'' then
        (let autostart_dir = expanduser st ''~/.config/autostart'';
             desktop_file = join autostart_dir (app_name m @ ''.desktop'')
         in Inr (path_exists st desktop_file))
      else if system m = ''Darwin'' then
        (let plist_path =
               expanduser st (''~/Library/LaunchAgents/com.'' @ app_name m @ ''.plist'')
         in Inr (path_exists st plist_path))
      else Inr False)"

text \<open>\<open>AutoStartManager.is_enabled\<close>: any exception is logged and answered by \<open>False\<close>.\<close>

definition is_enabled :: "manager \<Rightarrow> os_store \<Rightarrow> bool" where
  "is_enabled m st = (case is_enabled_try m st of Inl e \<Rightarrow> False | Inr b \<Rightarrow> b)"

text \<open>
  The body of the \<open>try\<close> block of \<open>AutoStartManager.enable\<close>, with the store as the block
  leaves it: what was written before an exception stays written.
\<close>

definition enable_try :: "manager \<Rightarrow> os_store \<Rightarrow> (exn + bool) \<times> os_store" where
  "enable_try m st =
     (if system m = ''Windows'' then
        (case OpenKey st KEY_WRITE of
           Inl e \<Rightarrow> (Inl e, st)
         | Inr key \<Rightarrow>
             (case SetValueEx st key (app_name m) (REG_SZ (app_path m)) of
                Inl e \<Rightarrow> (Inl e, st)
              | Inr st1 \<Rightarrow> (Inr True, st1)))
      else if system m = ''Linux'' then
        (let autostart_dir = expanduser st ''~/.config/autostart'' in
         case (if \<not> path_exists st autostart_dir then makedirs st autostart_dir else Inr st) of
           Inl e \<Rightarrow> (Inl e, st)
         | Inr st1 \<Rightarrow>
             (let desktop_file = join autostart_dir (app_name m @ ''.desktop'') in
              case open_w st1 desktop_file (desktop_entry m) of
                Inl e \<Rightarrow> (Inl e, st1)
              | Inr st2 \<Rightarrow>
                  (case chmod st2 desktop_file 493 of
                     Inl e \<Rightarrow> (Inl e, st2)
                   | Inr st3 \<Rightarrow> (Inr True, st3))))
      else if system m = ''Darwin'' then
        (let plist_dir = expanduser st ''~/Library/LaunchAgents'' in
         case (if \<not> path_exists st plist_dir then makedirs st plist_dir else Inr st) of
           Inl e \<Rightarrow> (Inl e, st)
         | Inr st1 \<Rightarrow>
             (let plist_path = join plist_dir (''com.'' @ app_name m @ ''.plist'') in
              case open_w st1 plist_path (plist_text m) of
                Inl e \<Rightarrow> (Inl e, st1)
              | Inr st2 \<Rightarrow> (Inr True, launchctl_load st2 plist_path)))
      else (Inr False, st))"

text \<open>\<open>AutoStartManager.enable\<close>: the answer and the store afterwards.\<close>

definition enable :: "manager \<Rightarrow> os_store \<Rightarrow> bool \<times> os_store" where
  "enable m st =
     (case enable_try m st of (Inl e, st') \<Rightarrow> (False, st') | (Inr b, st') \<Rightarrow> (b, st'))"

text \<open>The body of the \<open>try\<close> block of \<open>AutoStartManager.disable\<close>.\<close>

definition disable_try :: "manager \<Rightarrow> os_store \<Rightarrow> (exn + bool) \<times> os_store" where
  "disable_try m st =
     (if system m = ''Windows'' then
        (case OpenKey st KEY_WRITE of
           Inl e \<Rightarrow> (Inl e, st)
         | Inr key \<Rightarrow>
             (case DeleteValue st key (app_name m) of
                Inr st1 \<Rightarrow> (Inr True, st1)
              | Inl e \<Rightarrow> (if is_WindowsError e then (Inr True, st) else (Inl e, st))))
      else if system m = ''Linux'' then
        (let desktop_file =
               expanduser st (''~/.config/autostart/'' @ app_name m @ ''.desktop'')
         in if path_exists st desktop_file then
              (case remove st desktop_file of
                 Inl e \<Rightarrow> (Inl e, st)
               | Inr st1 \<Rightarrow> (Inr True, st1))
            else (Inr True, st))
      else if system m = ''Darwin'' then
        (let plist_path =
               expanduser st (''~/Library/LaunchAgents/com.'' @ app_name m @ ''.plist'')
         in if path_exists st plist_path then
              (let st1 = launchctl_unload st plist_path in
               case remove st1 plist_path of
                 Inl e \<Rightarrow> (Inl e, st1)
               | Inr st2 \<Rightarrow> (Inr True, st2))
            else (Inr True, st))
      else (Inr False, st))"

text \<open>\<open>AutoStartManager.disable\<close>: the answer and the store afterwards.\<close>

definition disable :: "manager \<Rightarrow> os_store \<Rightarrow> bool \<times> os_store" where
  "disable m st =
     (case disable_try m st of (Inl e, st') \<Rightarrow> (False, st') | (Inr b, st') \<Rightarrow> (b, st'))"

section \<open>Registrations\<close>

text \<open>
  The file names the operations compute. \<open>is_enabled\<close> and \<open>enable\<close> build the desktop
  file's name with \<open>os.path.join\<close>, \<open>disable\<close> builds it in one string; for the property
  list it is \<open>enable\<close> that joins, \<open>is_enabled\<close> and \<open>disable\<close> that use one string.
\<close>

definition joined_desktop_file :: "manager \<Rightarrow> os_store \<Rightarrow> string" where
  "joined_desktop_file m st =
     join (expanduser st ''~/.config/autostart'') (app_name m @ ''.desktop'')"

definition literal_desktop_file :: "manager \<Rightarrow> os_store \<Rightarrow> string" where
  "literal_desktop_file m st =
     expanduser st (''~/.config/autostart/'' @ app_name m @ ''.desktop'')"

definition joined_plist_path :: "manager \<Rightarrow> os_store \<Rightarrow> string" where
  "joined_plist_path m st =
     join (expanduser st ''~/Library/LaunchAgents'') (''com.'' @ app_name m @ ''.plist'')"

definition literal_plist_path :: "manager \<Rightarrow> os_store \<Rightarrow> string" where
  "literal_plist_path m st =
     expanduser st (''~/Library/LaunchAgents/com.'' @ app_name m @ ''.plist'')"

text \<open>
  The specification's notion of a registration, in its words: on Windows a value of the
  auto-run list named by the application name, on Linux the desktop file, on macOS the
  property list; the recorded path is checkable on Windows only, where it is the value.
  The files are the ones \<open>is_enabled\<close> looks for.
\<close>

definition spec_registration_exists :: "manager \<Rightarrow> os_store \<Rightarrow> bool" where
  "spec_registration_exists m st =
     (if system m = ''Windows'' then
        (case run_key st of None \<Rightarrow> False | Some k \<Rightarrow> k (app_name m) \<noteq> None)
      else if system m = ''Linux'' then path_exists st (joined_desktop_file m st)
      else if system m = ''Darwin'' then path_exists st (literal_plist_path m st)
      else False)"

definition spec_path_matches :: "manager \<Rightarrow> os_store \<Rightarrow> bool" where
  "spec_path_matches m st =
     (if system m = ''Windows'' then
        (case run_key st of
           None \<Rightarrow> False
         | Some k \<Rightarrow> k (app_name m) = Some (REG_SZ (app_path m)))
      else True)"

text \<open>
  The store after \<open>if not os.path.exists(d): os.makedirs(d)\<close> when that statement
  completes.
\<close>

definition with_dir :: "os_store \<Rightarrow> string \<Rightarrow> os_store" where
  "with_dir st d = (if fs st d = None then st\<lparr>fs := (fs st)(d \<mapsto> Dir)\<rparr> else st)"


section \<open>Example inputs\<close>

text \<open>
  A store with an empty auto-run list, an empty file system and the home directory
  \<open>/home/u\<close>, and the manager as the application constructs it (default application
  name) on a given platform.
\<close>

definition home_store :: os_store where
  "home_store = \<lparr>run_key = Some Map.empty, home = Some ''/home/u'', fs = Map.empty,
                 denied = {}, launchd = {}\<rparr>"

definition monitor_on :: "string \<Rightarrow> manager" where
  "monitor_on sys = \<lparr>app_name = ''InternetSpeedMonitor'', app_path = ''/opt/ism/ism.py'', system = sys\<rparr>"

section \<open>Rate computation\<close>

lemma update_speed_sample:
  "0.1 \<le> now - last_time s \<Longrightarrow>
   update_speed s (Inr (Some io)) now =
     (s\<lparr>upload_speed := real_of_int (bytes_sent io - last_upload s) / (now - last_time s) / 1024,
        download_speed := real_of_int (bytes_recv io - last_download s) / (now - last_time s) / 1024,
        last_upload := bytes_sent io,
        last_download := bytes_recv io,
        last_time := now\<rparr>,
      [(real_of_int (bytes_sent io - last_upload s) / (now - last_time s) / 1024,
        real_of_int (bytes_recv io - last_download s) / (now - last_time s) / 1024)])"
  by (simp add: update_speed_def update_speed_try_def Let_def)

lemma update_speed_skip:
  "now - last_time s < 0.1 \<Longrightarrow> update_speed s r now = (s, [])"
  by (simp add: update_speed_def update_speed_try_def Let_def split: sum.splits)

lemma update_speed_read_error:
  "update_speed s (Inl e) now = (s, [])"
  by (simp add: update_speed_def update_speed_try_def)

lemma emitted_cases:
  "(u, d) \<in> set (snd (update_speed s r now)) \<Longrightarrow>
   \<exists>io. r = Inr (Some io) \<and> 0.1 \<le> now - last_time s \<and>
        u = real_of_int (bytes_sent io - last_upload s) / (now - last_time s) / 1024 \<and>
        d = real_of_int (bytes_recv io - last_download s) / (now - last_time s) / 1024"
  by (auto simp add: update_speed_def update_speed_try_def Let_def split: sum.splits option.splits if_splits)

lemma rate_sign: "0.1 \<le> (t::real) \<Longrightarrow> (0 \<le> real_of_int k / t / 1024) = (0 \<le> k)"
  by (simp add: zero_le_divide_iff)

text \<open>
  C1. For consecutive readings with non-negative byte deltas and an elapsed time of at
  least 0.1 seconds, a sample whose counter read succeeds emits exactly one pair, the
  upload rate \<open>\<Delta>sent / dt / 1024\<close> and the download rate \<open>\<Delta>recv / dt / 1024\<close>, records
  the same two rates in the monitor, and replaces the stored snapshot (bytes sent, bytes
  received, timestamp) by the current reading.
\<close>

theorem update_speed_rates:
  assumes "0 \<le> dsent" and "0 \<le> drecv" and "0.1 \<le> dt"
    and "bytes_sent io = last_upload s + dsent"
    and "bytes_recv io = last_download s + drecv"
    and "now = last_time s + dt"
  shows "update_speed s (Inr (Some io)) now =
     (s\<lparr>upload_speed := real_of_int dsent / dt / 1024,
        download_speed := real_of_int drecv / dt / 1024,
        last_upload := bytes_sent io,
        last_download := bytes_recv io,
        last_time := now\<rparr>,
      [(real_of_int dsent / dt / 1024, real_of_int drecv / dt / 1024)])"
proof -
  have dt: "now - last_time s = dt" using assms(6) by simp
  have ds: "bytes_sent io - last_upload s = dsent" using assms(4) by simp
  have dr: "bytes_recv io - last_download s = drecv" using assms(5) by simp
  from assms(3) dt have "0.1 \<le> now - last_time s" by simp
  from update_speed_sample [OF this, of io] show ?thesis
    by (simp only: dt ds dr)
qed


text \<open>
  The scenario of the specification as the witness: a monitor initialised at time 0 on the
  counters (1000, 2000), then a sample at time 1 on (2024, 3048). The deltas are 1024 and
  1048 bytes, so the upload rate is 1 and the download rate is 1048 / 1024 = 131 / 128.
\<close>

theorem update_speed_rates_witness:
  "(0::int) \<le> 1024 \<and> (0::int) \<le> 1048 \<and> (0.1::real) \<le> 1 \<and>
   SpeedMonitor_init 0 (Inr (Some \<lparr>bytes_sent = 1000, bytes_recv = 2000\<rparr>)) =
     Inr \<lparr>upload_speed = 0, download_speed = 0, last_upload = 1000, last_download = 2000,
          last_time = 0\<rparr> \<and>
   update_speed
     \<lparr>upload_speed = 0, download_speed = 0, last_upload = 1000, last_download = 2000,
      last_time = 0\<rparr>
     (Inr (Some \<lparr>bytes_sent = 2024, bytes_recv = 3048\<rparr>)) 1 =
     (\<lparr>upload_speed = 1, download_speed = 131 / 128, last_upload = 2024,
       last_download = 3048, last_time = 1\<rparr>, [(1, 131 / 128)])"
proof -
  have "update_speed
     \<lparr>upload_speed = 0, download_speed = 0, last_upload = 1000, last_download = 2000,
      last_time = 0\<rparr>
     (Inr (Some \<lparr>bytes_sent = 2024, bytes_recv = 3048\<rparr>)) 1 =
     (\<lparr>upload_speed = 0, download_speed = 0, last_upload = 1000, last_download = 2000,
       last_time = 0\<rparr>
      \<lparr>upload_speed := real_of_int 1024 / 1 / 1024,
       download_speed := real_of_int 1048 / 1 / 1024,
       last_upload := bytes_sent \<lparr>bytes_sent = 2024, bytes_recv = 3048\<rparr>,
       last_download := bytes_recv \<lparr>bytes_sent = 2024, bytes_recv = 3048\<rparr>,
       last_time := 1\<rparr>,
      [(real_of_int 1024 / 1 / 1024, real_of_int 1048 / 1 / 1024)])"
    by (rule update_speed_rates) simp_all
  then show ?thesis
    by (simp add: SpeedMonitor_init_def)
qed

text \<open>
  C2. When less than 0.1 seconds have passed since the stored snapshot, the call emits
  nothing and leaves the monitor as it was, whatever the counter read gave; hence any
  later call behaves as if the skipped call had not happened, and computes its rates
  over the whole interval since the stored snapshot.
\<close>

theorem update_speed_guard:
  assumes "now - last_time s < 0.1"
  shows "update_speed s r now = (s, []) \<and>
         update_speed (fst (update_speed s r now)) r' now' = update_speed s r' now'"
proof
  show unchanged: "update_speed s r now = (s, [])"
    by (rule update_speed_skip [OF assms])
  show "update_speed (fst (update_speed s r now)) r' now' = update_speed s r' now'"
    by (simp only: unchanged fst_conv)
qed

theorem update_speed_guard_witness:
  "(0.05::real) - 0 < 0.1 \<and>
   update_speed
     \<lparr>upload_speed = 0, download_speed = 0, last_upload = 1000, last_download = 2000,
      last_time = 0\<rparr>
     (Inr (Some \<lparr>bytes_sent = 1500, bytes_recv = 2500\<rparr>)) 0.05 =
     (\<lparr>upload_speed = 0, download_speed = 0, last_upload = 1000, last_download = 2000,
       last_time = 0\<rparr>, [])"
proof -
  have h: "0.05 - last_time \<lparr>upload_speed = 0, download_speed = 0, last_upload = 1000,
      last_download = 2000, last_time = 0\<rparr> < 0.1"
    by simp
  from update_speed_guard [OF h] show ?thesis by simp
qed

text \<open>
  C3 as stated fails: the code does not clamp. With 5000 bytes stored as sent and a
  current reading of 1000 one second later, the emitted upload rate is
  \<open>-4000 / 1024 = -125 / 32\<close>.
\<close>

theorem negative_rate_emitted:
  "(- (125 / 32), 0) \<in> set (snd (update_speed
       \<lparr>upload_speed = 0, download_speed = 0, last_upload = 5000, last_download = 2000,
        last_time = 0\<rparr>
       (Inr (Some \<lparr>bytes_sent = 1000, bytes_recv = 2000\<rparr>)) 1)) \<and>
   - (125 / 32) < (0::real)"
  by (simp add: update_speed_def update_speed_try_def Let_def)

text \<open>
  C3 amended. Every emitted pair is the pair of quotients of the code, with no clamping:
  the upload rate is non-negative exactly when the current count of bytes sent is not
  below the stored one, and the download rate is non-negative exactly when the current
  count of bytes received is not below the stored one.
\<close>

theorem emitted_rate_sign:
  assumes "(u, d) \<in> set (snd (update_speed s r now))"
  shows "\<exists>io. r = Inr (Some io) \<and>
      u = real_of_int (bytes_sent io - last_upload s) / (now - last_time s) / 1024 \<and>
      d = real_of_int (bytes_recv io - last_download s) / (now - last_time s) / 1024 \<and>
      (0 \<le> u \<longleftrightarrow> last_upload s \<le> bytes_sent io) \<and>
      (0 \<le> d \<longleftrightarrow> last_download s \<le> bytes_recv io)"
proof -
  from emitted_cases [OF assms] obtain io where io: "r = Inr (Some io)"
    and dt: "0.1 \<le> now - last_time s"
    and u: "u = real_of_int (bytes_sent io - last_upload s) / (now - last_time s) / 1024"
    and d: "d = real_of_int (bytes_recv io - last_download s) / (now - last_time s) / 1024"
    by blast
  have "(0 \<le> u) = (0 \<le> bytes_sent io - last_upload s)"
    unfolding u by (rule rate_sign [OF dt])
  moreover have "(0 \<le> d) = (0 \<le> bytes_recv io - last_download s)"
    unfolding d by (rule rate_sign [OF dt])
  ultimately show ?thesis using io u d by auto
qed

theorem emitted_rate_sign_witness:
  "(- (125 / 32), 1) \<in> set (snd (update_speed
       \<lparr>upload_speed = 0, download_speed = 0, last_upload = 5000, last_download = 2000,
        last_time = 0\<rparr>
       (Inr (Some \<lparr>bytes_sent = 1000, bytes_recv = 3024\<rparr>)) 1)) \<and>
   \<not> (0::real) \<le> - (125 / 32) \<and> \<not> (5000::int) \<le> 1000 \<and> (0::real) \<le> 1 \<and> (2000::int) \<le> 3024"
proof -
  have m: "(- (125 / 32), 1) \<in> set (snd (update_speed
       \<lparr>upload_speed = 0, download_speed = 0, last_upload = 5000, last_download = 2000,
        last_time = 0\<rparr>
       (Inr (Some \<lparr>bytes_sent = 1000, bytes_recv = 3024\<rparr>)) 1))"
    by (simp add: update_speed_def update_speed_try_def Let_def)
  from emitted_rate_sign [OF m] show ?thesis using m by simp
qed

text \<open>
  C6. When the counter read raises, the call emits nothing, returns normally and leaves
  the monitor as it was; hence the next call computes its rates over the whole interval
  since the stored snapshot.
\<close>

theorem update_speed_read_failure:
  "update_speed s (Inl e) now = (s, []) \<and>
   update_speed (fst (update_speed s (Inl e) now)) r' now' = update_speed s r' now'"
proof
  show unchanged: "update_speed s (Inl e) now = (s, [])"
    by (rule update_speed_read_error)
  show "update_speed (fst (update_speed s (Inl e) now)) r' now' = update_speed s r' now'"
    by (simp only: unchanged fst_conv)
qed

section \<open>Autostart: what each operation does\<close>

lemma expanduser_tilde_slash:
  "expanduser st (CHR ''~'' # CHR ''/'' # cs) =
     (case home st of None \<Rightarrow> CHR ''~'' # CHR ''/'' # cs
      | Some u \<Rightarrow> rstrip_slash u @ CHR ''/'' # cs)"
  by (simp add: expanduser_def Let_def split: option.splits)

lemma plist_paths_agree: "joined_plist_path m st = literal_plist_path m st"
  by (simp add: joined_plist_path_def literal_plist_path_def expanduser_tilde_slash join_def
      split: option.splits)

lemma desktop_paths_agree:
  "app_name m = [] \<or> hd (app_name m) \<noteq> CHR ''/'' \<Longrightarrow>
   joined_desktop_file m st = literal_desktop_file m st"
  by (cases "app_name m")
     (simp_all add: joined_desktop_file_def literal_desktop_file_def expanduser_tilde_slash join_def
      split: option.splits)

lemma is_enabled_Windows:
  "system m = ''Windows'' \<Longrightarrow>
   is_enabled m st =
     (case run_key st of None \<Rightarrow> False | Some k \<Rightarrow> k (app_name m) = Some (REG_SZ (app_path m)))"
  by (simp add: is_enabled_def is_enabled_try_def OpenKey_def QueryValueEx_def is_WindowsError_def
      split: option.splits)

lemma is_enabled_Linux:
  "system m = ''Linux'' \<Longrightarrow> is_enabled m st = path_exists st (joined_desktop_file m st)"
  by (simp add: is_enabled_def is_enabled_try_def joined_desktop_file_def Let_def)

lemma is_enabled_Darwin:
  "system m = ''Darwin'' \<Longrightarrow> is_enabled m st = path_exists st (literal_plist_path m st)"
  by (simp add: is_enabled_def is_enabled_try_def literal_plist_path_def Let_def)

lemma is_enabled_other:
  "system m \<noteq> ''Windows'' \<Longrightarrow> system m \<noteq> ''Linux'' \<Longrightarrow> system m \<noteq> ''Darwin'' \<Longrightarrow>
   is_enabled m st = False"
  by (simp add: is_enabled_def is_enabled_try_def)

lemma expanduser_fs [simp]: "expanduser (st\<lparr>fs := f\<rparr>) p = expanduser st p"
  by (simp add: expanduser_def)

lemma expanduser_launchd [simp]: "expanduser (st\<lparr>launchd := l\<rparr>) p = expanduser st p"
  by (simp add: expanduser_def)

lemma expanduser_run_key [simp]: "expanduser (st\<lparr>run_key := k\<rparr>) p = expanduser st p"
  by (simp add: expanduser_def)

lemma enable_Windows:
  "system m = ''Windows'' \<Longrightarrow>
   enable m st =
     (case run_key st of
        None \<Rightarrow> (False, st)
      | Some k \<Rightarrow> (True, st\<lparr>run_key := Some (k(app_name m \<mapsto> REG_SZ (app_path m)))\<rparr>))"
  by (simp add: enable_def enable_try_def OpenKey_def SetValueEx_def split: option.splits)

lemma disable_Windows:
  "system m = ''Windows'' \<Longrightarrow>
   disable m st =
     (case run_key st of
        None \<Rightarrow> (False, st)
      | Some k \<Rightarrow>
          (case k (app_name m) of
             None \<Rightarrow> (True, st)
           | Some v \<Rightarrow> (True, st\<lparr>run_key := Some (k(app_name m := None))\<rparr>)))"
  by (simp add: disable_def disable_try_def OpenKey_def DeleteValue_def is_WindowsError_def
      split: option.splits)

lemma enable_Linux:
  "system m = ''Linux'' \<Longrightarrow>
   enable m st =
     (let d = expanduser st ''~/.config/autostart''; f = joined_desktop_file m st in
      if fs st d = None \<and> d \<in> denied st then (False, st)
      else if f \<in> denied st \<or> fs (with_dir st d) f = Some Dir then (False, with_dir st d)
      else (True, (with_dir st d)\<lparr>fs := (fs (with_dir st d))(f \<mapsto> File (desktop_entry m) 493)\<rparr>))"
  by (auto simp add: enable_def enable_try_def joined_desktop_file_def Let_def path_exists_def
      makedirs_def open_w_def chmod_def with_dir_def split: option.splits node.splits)

lemma enable_Darwin:
  "system m = ''Darwin'' \<Longrightarrow>
   enable m st =
     (let d = expanduser st ''~/Library/LaunchAgents''; f = joined_plist_path m st in
      if fs st d = None \<and> d \<in> denied st then (False, st)
      else if f \<in> denied st \<or> fs (with_dir st d) f = Some Dir then (False, with_dir st d)
      else (True, (with_dir st d)
              \<lparr>fs := (fs (with_dir st d))
                  (f \<mapsto> File (plist_text m)
                         (case fs (with_dir st d) f of Some (File old mode) \<Rightarrow> mode | _ \<Rightarrow> 420)),
               launchd := insert f (launchd st)\<rparr>))"
  by (auto simp add: enable_def enable_try_def joined_plist_path_def Let_def path_exists_def
      makedirs_def open_w_def launchctl_load_def with_dir_def split: option.splits node.splits)

lemma disable_Linux:
  "system m = ''Linux'' \<Longrightarrow>
   disable m st =
     (let f = literal_desktop_file m st in
      case fs st f of
        None \<Rightarrow> (True, st)
      | Some Dir \<Rightarrow> (False, st)
      | Some (File text mode) \<Rightarrow>
          (if f \<in> denied st then (False, st) else (True, st\<lparr>fs := (fs st)(f := None)\<rparr>)))"
  by (auto simp add: disable_def disable_try_def literal_desktop_file_def Let_def path_exists_def
      remove_def split: option.splits node.splits)

lemma disable_Darwin:
  "system m = ''Darwin'' \<Longrightarrow>
   disable m st =
     (let f = literal_plist_path m st in
      case fs st f of
        None \<Rightarrow> (True, st)
      | Some Dir \<Rightarrow> (False, st\<lparr>launchd := launchd st - {f}\<rparr>)
      | Some (File text mode) \<Rightarrow>
          (if f \<in> denied st then (False, st\<lparr>launchd := launchd st - {f}\<rparr>)
           else (True, st\<lparr>launchd := launchd st - {f}, fs := (fs st)(f := None)\<rparr>)))"
  by (auto simp add: disable_def disable_try_def literal_plist_path_def Let_def path_exists_def
      remove_def launchctl_unload_def split: option.splits node.splits)

lemma enable_other:
  "system m \<noteq> ''Windows'' \<Longrightarrow> system m \<noteq> ''Linux'' \<Longrightarrow> system m \<noteq> ''Darwin'' \<Longrightarrow>
   enable m st = (False, st)"
  by (simp add: enable_def enable_try_def)

lemma disable_other:
  "system m \<noteq> ''Windows'' \<Longrightarrow> system m \<noteq> ''Linux'' \<Longrightarrow> system m \<noteq> ''Darwin'' \<Longrightarrow>
   disable m st = (False, st)"
  by (simp add: disable_def disable_try_def)


lemma with_dir_home [simp]: "home (with_dir st d) = home st"
  by (simp add: with_dir_def)

lemma with_dir_denied [simp]: "denied (with_dir st d) = denied st"
  by (simp add: with_dir_def)

lemma with_dir_launchd [simp]: "launchd (with_dir st d) = launchd st"
  by (simp add: with_dir_def)

lemma with_dir_there [simp]: "fs (with_dir st d) d \<noteq> None"
  by (simp add: with_dir_def)

lemma with_dir_idem [simp]: "fs st d \<noteq> None \<Longrightarrow> with_dir st d = st"
  by (auto simp add: with_dir_def)


lemma joined_desktop_file_cong:
  "home st' = home st \<Longrightarrow> joined_desktop_file m st' = joined_desktop_file m st"
  by (simp add: joined_desktop_file_def expanduser_def)

lemma joined_plist_path_cong:
  "home st' = home st \<Longrightarrow> joined_plist_path m st' = joined_plist_path m st"
  by (simp add: joined_plist_path_def expanduser_def)

lemma system_cases:
  obtains (Windows) "system m = ''Windows''" | (Linux) "system m = ''Linux''"
    | (Darwin) "system m = ''Darwin''"
    | (other) "system m \<noteq> ''Windows''" "system m \<noteq> ''Linux''" "system m \<noteq> ''Darwin''"
  by blast

lemma enable_home: "home (snd (enable m st)) = home st"
proof (cases m rule: system_cases)
  case Windows
  then show ?thesis by (simp add: enable_Windows split: option.splits)
next
  case Linux
  then show ?thesis by (simp add: enable_Linux Let_def)
next
  case Darwin
  then show ?thesis by (simp add: enable_Darwin Let_def)
next
  case other
  then show ?thesis by (simp add: enable_other)
qed

lemma enable_then_enabled:
  assumes "enable m st = (True, st')"
  shows "is_enabled m st'"
proof -
  show ?thesis
  proof (cases m rule: system_cases)
    case w: Windows
    with assms show ?thesis
      by (auto simp add: enable_Windows is_enabled_Windows split: option.splits)
  next
    case l: Linux
    from assms have h: "home st' = home st" using enable_home [of m st] by simp
    from l assms show ?thesis
      by (auto simp add: enable_Linux is_enabled_Linux Let_def path_exists_def
          joined_desktop_file_cong [OF h] split: if_splits)
  next
    case d: Darwin
    from assms have h: "home st' = home st" using enable_home [of m st] by simp
    have p: "literal_plist_path m st' = joined_plist_path m st"
      using plist_paths_agree [of m st'] joined_plist_path_cong [OF h, of m] by simp
    from d assms show ?thesis
      by (auto simp add: enable_Darwin is_enabled_Darwin Let_def path_exists_def p
          split: if_splits)
  next
    case o: other
    with assms show ?thesis by (simp add: enable_other)
  qed
qed

lemma literal_desktop_file_cong:
  "home st' = home st \<Longrightarrow> literal_desktop_file m st' = literal_desktop_file m st"
  by (simp add: literal_desktop_file_def expanduser_def)

lemma literal_plist_path_cong:
  "home st' = home st \<Longrightarrow> literal_plist_path m st' = literal_plist_path m st"
  by (simp add: literal_plist_path_def expanduser_def)

lemma disable_home: "home (snd (disable m st)) = home st"
proof (cases m rule: system_cases)
  case Windows
  then show ?thesis by (simp add: disable_Windows split: option.splits)
next
  case Linux
  then show ?thesis by (simp add: disable_Linux Let_def split: option.splits node.splits)
next
  case Darwin
  then show ?thesis by (simp add: disable_Darwin Let_def split: option.splits node.splits)
next
  case other
  then show ?thesis by (simp add: disable_other)
qed

lemma disable_Linux_gone:
  assumes "system m = ''Linux''" and "disable m st = (True, st')"
  shows "fs st' (literal_desktop_file m st) = None"
  using assms(2) unfolding disable_Linux [OF assms(1)] Let_def
  by (auto split: option.splits node.splits if_splits)

lemma disable_Darwin_gone:
  assumes "system m = ''Darwin''" and "disable m st = (True, st')"
  shows "fs st' (literal_plist_path m st) = None"
  using assms(2) unfolding disable_Darwin [OF assms(1)] Let_def
  by (auto split: option.splits node.splits if_splits)

lemma disable_Windows_gone:
  assumes "system m = ''Windows''" and "disable m st = (True, st')"
  shows "\<exists>k. run_key st' = Some k \<and> k (app_name m) = None"
  using assms(2) unfolding disable_Windows [OF assms(1)]
  by (auto split: option.splits)

lemma disable_then_not_enabled:
  assumes "disable m st = (True, st')"
    and "system m = ''Linux'' \<Longrightarrow> app_name m = [] \<or> hd (app_name m) \<noteq> CHR ''/''"
  shows "\<not> is_enabled m st'"
proof (cases m rule: system_cases)
  case Windows
  from disable_Windows_gone [OF Windows assms(1)] show ?thesis
    by (auto simp add: is_enabled_Windows [OF Windows])
next
  case Linux
  from assms(1) have h: "home st' = home st" using disable_home [of m st] by simp
  have "joined_desktop_file m st' = literal_desktop_file m st'"
    by (rule desktop_paths_agree [OF assms(2) [OF Linux]])
  also have "\<dots> = literal_desktop_file m st"
    by (rule literal_desktop_file_cong [OF h])
  finally have p: "joined_desktop_file m st' = literal_desktop_file m st" .
  from disable_Linux_gone [OF Linux assms(1)] show ?thesis
    by (simp add: is_enabled_Linux [OF Linux] path_exists_def p)
next
  case Darwin
  from assms(1) have h: "home st' = home st" using disable_home [of m st] by simp
  note p = literal_plist_path_cong [OF h, of m]
  from disable_Darwin_gone [OF Darwin assms(1)] show ?thesis
    by (simp add: is_enabled_Darwin [OF Darwin] path_exists_def p)
next
  case other
  with assms(1) show ?thesis by (simp add: disable_other)
qed









section \<open>Autostart: the example inputs evaluated\<close>

lemma monitor_on_simps [simp]:
  "app_name (monitor_on sys) = ''InternetSpeedMonitor''"
  "app_path (monitor_on sys) = ''/opt/ism/ism.py''"
  "system (monitor_on sys) = sys"
  by (simp_all add: monitor_on_def)

lemma home_store_simps [simp]:
  "run_key home_store = Some Map.empty"
  "home home_store = Some ''/home/u''"
  "fs home_store = Map.empty"
  "denied home_store = {}"
  "launchd home_store = {}"
  by (simp_all add: home_store_def)

lemma example_desktop_file:
  "joined_desktop_file (monitor_on sys) home_store =
     ''/home/u/.config/autostart/InternetSpeedMonitor.desktop''"
  "literal_desktop_file (monitor_on sys) home_store =
     ''/home/u/.config/autostart/InternetSpeedMonitor.desktop''"
  by (simp_all add: joined_desktop_file_def literal_desktop_file_def expanduser_def join_def
      rstrip_slash_def)

lemma example_plist_path:
  "joined_plist_path (monitor_on sys) home_store =
     ''/home/u/Library/LaunchAgents/com.InternetSpeedMonitor.plist''"
  "literal_plist_path (monitor_on sys) home_store =
     ''/home/u/Library/LaunchAgents/com.InternetSpeedMonitor.plist''"
  by (simp_all add: joined_plist_path_def literal_plist_path_def expanduser_def join_def
      rstrip_slash_def)

lemma example_enable_Windows:
  "enable (monitor_on ''Windows'') home_store =
     (True, home_store\<lparr>run_key := Some [''InternetSpeedMonitor'' \<mapsto> REG_SZ ''/opt/ism/ism.py'']\<rparr>)"
  by (simp add: enable_Windows)

lemma example_enable_Linux:
  "enable (monitor_on ''Linux'') home_store =
     (True, home_store\<lparr>fs := [''/home/u/.config/autostart'' \<mapsto> Dir,
        ''/home/u/.config/autostart/InternetSpeedMonitor.desktop'' \<mapsto>
          File (desktop_entry (monitor_on ''Linux'')) 493]\<rparr>)"
  by (simp add: enable_Linux example_desktop_file Let_def with_dir_def expanduser_def
      rstrip_slash_def)

lemma example_enable_Darwin:
  "enable (monitor_on ''Darwin'') home_store =
     (True, home_store\<lparr>fs := [''/home/u/Library/LaunchAgents'' \<mapsto> Dir,
        ''/home/u/Library/LaunchAgents/com.InternetSpeedMonitor.plist'' \<mapsto>
          File (plist_text (monitor_on ''Darwin'')) 420],
        launchd := {''/home/u/Library/LaunchAgents/com.InternetSpeedMonitor.plist''}\<rparr>)"
  by (simp add: enable_Darwin example_plist_path Let_def with_dir_def expanduser_def
      rstrip_slash_def)

lemma example_disable_Windows:
  "disable (monitor_on ''Windows'')
     (home_store\<lparr>run_key := Some [''InternetSpeedMonitor'' \<mapsto> REG_SZ ''/opt/ism/ism.py'']\<rparr>) =
     (True, home_store)"
  by (simp add: disable_Windows home_store_def)

lemma example_disable_Linux:
  "disable (monitor_on ''Linux'')
     (home_store\<lparr>fs := [''/home/u/.config/autostart'' \<mapsto> Dir,
        ''/home/u/.config/autostart/InternetSpeedMonitor.desktop'' \<mapsto>
          File (desktop_entry (monitor_on ''Linux'')) 493]\<rparr>) =
     (True, home_store\<lparr>fs := [''/home/u/.config/autostart'' \<mapsto> Dir]\<rparr>)"
proof -
  let ?st = "home_store\<lparr>fs := [''/home/u/.config/autostart'' \<mapsto> Dir,
        ''/home/u/.config/autostart/InternetSpeedMonitor.desktop'' \<mapsto>
          File (desktop_entry (monitor_on ''Linux'')) 493]\<rparr>"
  have h: "home ?st = home home_store" by simp
  show ?thesis
    by (simp add: disable_Linux literal_desktop_file_cong [OF h] example_desktop_file Let_def)
qed

lemma example_disable_Darwin:
  "disable (monitor_on ''Darwin'')
     (home_store\<lparr>fs := [''/home/u/Library/LaunchAgents'' \<mapsto> Dir,
        ''/home/u/Library/LaunchAgents/com.InternetSpeedMonitor.plist'' \<mapsto>
          File (plist_text (monitor_on ''Darwin'')) 420],
        launchd := {''/home/u/Library/LaunchAgents/com.InternetSpeedMonitor.plist''}\<rparr>) =
     (True, home_store\<lparr>fs := [''/home/u/Library/LaunchAgents'' \<mapsto> Dir]\<rparr>)"
proof -
  let ?st = "home_store\<lparr>fs := [''/home/u/Library/LaunchAgents'' \<mapsto> Dir,
        ''/home/u/Library/LaunchAgents/com.InternetSpeedMonitor.plist'' \<mapsto>
          File (plist_text (monitor_on ''Darwin'')) 420],
        launchd := {''/home/u/Library/LaunchAgents/com.InternetSpeedMonitor.plist''}\<rparr>"
  have h: "home ?st = home home_store" by simp
  have p: "literal_plist_path (monitor_on ''Darwin'') ?st =
      ''/home/u/Library/LaunchAgents/com.InternetSpeedMonitor.plist''"
    unfolding literal_plist_path_cong [OF h] by (rule example_plist_path)
  have "disable (monitor_on ''Darwin'') ?st =
      (True, ?st\<lparr>launchd := launchd ?st -
          {''/home/u/Library/LaunchAgents/com.InternetSpeedMonitor.plist''},
        fs := (fs ?st)(''/home/u/Library/LaunchAgents/com.InternetSpeedMonitor.plist'' := None)\<rparr>)"
    by (simp add: disable_Darwin p Let_def)
  also have "?st\<lparr>launchd := launchd ?st -
          {''/home/u/Library/LaunchAgents/com.InternetSpeedMonitor.plist''},
        fs := (fs ?st)(''/home/u/Library/LaunchAgents/com.InternetSpeedMonitor.plist'' := None)\<rparr> =
      home_store\<lparr>fs := [''/home/u/Library/LaunchAgents'' \<mapsto> Dir]\<rparr>"
    by (simp add: home_store_def)
  finally show ?thesis .
qed

section \<open>Autostart: the query\<close>

text \<open>
  C4. On every platform variant and in every state of the store, \<open>is_enabled\<close> answers
  true exactly when the registration exists and, where the code can check it (on Windows,
  where the value is the path), the recorded path is the current executable path. The
  answer is a boolean in every case, and it is false whenever the body of the \<open>try\<close>
  block raises.
\<close>

theorem is_enabled_iff_registered:
  "is_enabled m st = (spec_registration_exists m st \<and> spec_path_matches m st) \<and>
   (is_enabled_try m st = Inl e \<longrightarrow> \<not> is_enabled m st)"
proof
  show "is_enabled m st = (spec_registration_exists m st \<and> spec_path_matches m st)"
    by (auto simp add: is_enabled_Windows is_enabled_Linux is_enabled_Darwin is_enabled_other
        spec_registration_exists_def spec_path_matches_def split: option.splits)
  show "is_enabled_try m st = Inl e \<longrightarrow> \<not> is_enabled m st"
    by (simp add: is_enabled_def)
qed

theorem is_enabled_iff_registered_witness:
  "is_enabled_try (monitor_on ''Windows'') (home_store\<lparr>run_key := None\<rparr>) = Inl OSError \<and>
   \<not> is_enabled (monitor_on ''Windows'') (home_store\<lparr>run_key := None\<rparr>) \<and>
   spec_registration_exists (monitor_on ''Windows'')
     (home_store\<lparr>run_key := Some [''InternetSpeedMonitor'' \<mapsto> REG_SZ ''/opt/ism/ism.py'']\<rparr>) \<and>
   spec_path_matches (monitor_on ''Windows'')
     (home_store\<lparr>run_key := Some [''InternetSpeedMonitor'' \<mapsto> REG_SZ ''/opt/ism/ism.py'']\<rparr>) \<and>
   is_enabled (monitor_on ''Windows'')
     (home_store\<lparr>run_key := Some [''InternetSpeedMonitor'' \<mapsto> REG_SZ ''/opt/ism/ism.py'']\<rparr>)"
proof -
  let ?m = "monitor_on ''Windows''"
  let ?closed = "home_store\<lparr>run_key := None\<rparr>"
  let ?set = "home_store\<lparr>run_key := Some [''InternetSpeedMonitor'' \<mapsto> REG_SZ ''/opt/ism/ism.py'']\<rparr>"
  have a: "is_enabled_try ?m ?closed = Inl OSError"
    by (simp add: is_enabled_try_def OpenKey_def)
  have b: "spec_registration_exists ?m ?set"
    by (simp add: spec_registration_exists_def)
  have c: "spec_path_matches ?m ?set"
    by (simp add: spec_path_matches_def)
  from is_enabled_iff_registered [of ?m ?closed OSError] a have 1: "\<not> is_enabled ?m ?closed"
    by blast
  from is_enabled_iff_registered [of ?m ?set] b c have 2: "is_enabled ?m ?set"
    by blast
  from a 1 b c 2 show ?thesis by blast
qed

text \<open>
  C10. On Linux and on macOS \<open>is_enabled\<close> is the existence of the desktop file or of the
  property list and nothing more: it is true also when the file records another
  executable path. On Windows the recorded value is compared with the current path.
\<close>

theorem recorded_path_compared_on_Windows_only:
  "(system m = ''Linux'' \<longrightarrow>
      is_enabled m st = path_exists st (joined_desktop_file m st) \<and>
      (fs st (joined_desktop_file m st) = Some (File (desktop_entry (m\<lparr>app_path := p\<rparr>)) mode)
         \<longrightarrow> is_enabled m st)) \<and>
   (system m = ''Darwin'' \<longrightarrow>
      is_enabled m st = path_exists st (literal_plist_path m st) \<and>
      (fs st (literal_plist_path m st) = Some (File (plist_text (m\<lparr>app_path := p\<rparr>)) mode)
         \<longrightarrow> is_enabled m st)) \<and>
   (system m = ''Windows'' \<longrightarrow> run_key st = Some k \<longrightarrow> k (app_name m) = Some (REG_SZ p) \<longrightarrow>
      is_enabled m st = (p = app_path m))"
proof (intro conjI impI)
  assume l: "system m = ''Linux''"
  then show "is_enabled m st = path_exists st (joined_desktop_file m st)"
    by (rule is_enabled_Linux)
  assume "fs st (joined_desktop_file m st) =
      Some (File (desktop_entry (m\<lparr>app_path := p\<rparr>)) mode)"
  then show "is_enabled m st"
    by (simp add: is_enabled_Linux [OF l] path_exists_def)
next
  assume d: "system m = ''Darwin''"
  then show "is_enabled m st = path_exists st (literal_plist_path m st)"
    by (rule is_enabled_Darwin)
  assume "fs st (literal_plist_path m st) =
      Some (File (plist_text (m\<lparr>app_path := p\<rparr>)) mode)"
  then show "is_enabled m st"
    by (simp add: is_enabled_Darwin [OF d] path_exists_def)
next
  assume "system m = ''Windows''" and "run_key st = Some k"
    and "k (app_name m) = Some (REG_SZ p)"
  then show "is_enabled m st = (p = app_path m)"
    by (simp add: is_enabled_Windows)
qed

theorem recorded_path_compared_on_Windows_only_witness:
  "is_enabled (monitor_on ''Linux'')
     (home_store\<lparr>fs := [''/home/u/.config/autostart/InternetSpeedMonitor.desktop'' \<mapsto>
        File (desktop_entry ((monitor_on ''Linux'')\<lparr>app_path := ''/old/ism.py''\<rparr>)) 493]\<rparr>) \<and>
   is_enabled (monitor_on ''Darwin'')
     (home_store\<lparr>fs := [''/home/u/Library/LaunchAgents/com.InternetSpeedMonitor.plist'' \<mapsto>
        File (plist_text ((monitor_on ''Darwin'')\<lparr>app_path := ''/old/ism.py''\<rparr>)) 420]\<rparr>) \<and>
   \<not> is_enabled (monitor_on ''Windows'')
     (home_store\<lparr>run_key := Some [''InternetSpeedMonitor'' \<mapsto> REG_SZ ''/old/ism.py'']\<rparr>)"
proof -
  let ?l = "home_store\<lparr>fs := [''/home/u/.config/autostart/InternetSpeedMonitor.desktop'' \<mapsto>
        File (desktop_entry ((monitor_on ''Linux'')\<lparr>app_path := ''/old/ism.py''\<rparr>)) 493]\<rparr>"
  let ?d = "home_store\<lparr>fs := [''/home/u/Library/LaunchAgents/com.InternetSpeedMonitor.plist'' \<mapsto>
        File (plist_text ((monitor_on ''Darwin'')\<lparr>app_path := ''/old/ism.py''\<rparr>)) 420]\<rparr>"
  let ?w = "home_store\<lparr>run_key := Some [''InternetSpeedMonitor'' \<mapsto> REG_SZ ''/old/ism.py'']\<rparr>"
  have hl: "home ?l = home home_store" and hd: "home ?d = home home_store" by simp_all
  have l: "fs ?l (joined_desktop_file (monitor_on ''Linux'') ?l) =
      Some (File (desktop_entry ((monitor_on ''Linux'')\<lparr>app_path := ''/old/ism.py''\<rparr>)) 493)"
    unfolding joined_desktop_file_cong [OF hl] example_desktop_file by simp
  have d: "fs ?d (literal_plist_path (monitor_on ''Darwin'') ?d) =
      Some (File (plist_text ((monitor_on ''Darwin'')\<lparr>app_path := ''/old/ism.py''\<rparr>)) 420)"
    unfolding literal_plist_path_cong [OF hd] example_plist_path by simp
  have w: "run_key ?w = Some [''InternetSpeedMonitor'' \<mapsto> REG_SZ ''/old/ism.py'']"
    and w': "[''InternetSpeedMonitor'' \<mapsto> REG_SZ ''/old/ism.py''] (app_name (monitor_on ''Windows'')) =
      Some (REG_SZ ''/old/ism.py'')"
    by simp_all
  have sl: "system (monitor_on ''Linux'') = ''Linux''"
    and sd: "system (monitor_on ''Darwin'') = ''Darwin''"
    and sw: "system (monitor_on ''Windows'') = ''Windows''"
    by simp_all
  have 1: "is_enabled (monitor_on ''Linux'') ?l"
    by (rule recorded_path_compared_on_Windows_only
        [THEN conjunct1, THEN mp, OF sl, THEN conjunct2, THEN mp, OF l])
  have 2: "is_enabled (monitor_on ''Darwin'') ?d"
    by (rule recorded_path_compared_on_Windows_only
        [THEN conjunct2, THEN conjunct1, THEN mp, OF sd, THEN conjunct2, THEN mp, OF d])
  have "is_enabled (monitor_on ''Windows'') ?w = (''/old/ism.py'' = app_path (monitor_on ''Windows''))"
    by (rule recorded_path_compared_on_Windows_only
        [THEN conjunct2, THEN conjunct2, THEN mp, OF sw, THEN mp, OF w, THEN mp, OF w'])
  then have 3: "\<not> is_enabled (monitor_on ''Windows'') ?w" by simp
  from 1 2 3 show ?thesis by blast
qed

text \<open>
  C9. When the host is none of Windows, Linux and macOS (\<open>Darwin\<close>), each of the three
  operations completes its \<open>try\<close> block without an exception, answers false and leaves
  the store as it was.
\<close>

theorem unsupported_platform:
  assumes "system m \<noteq> ''Windows''" and "system m \<noteq> ''Linux''" and "system m \<noteq> ''Darwin''"
  shows "is_enabled_try m st = Inr False \<and> \<not> is_enabled m st \<and>
         enable_try m st = (Inr False, st) \<and> enable m st = (False, st) \<and>
         disable_try m st = (Inr False, st) \<and> disable m st = (False, st)"
  using assms
  by (simp add: is_enabled_def is_enabled_try_def enable_def enable_try_def disable_def
      disable_try_def)

theorem unsupported_platform_witness:
  "\<not> is_enabled (monitor_on ''FreeBSD'') home_store \<and>
   enable (monitor_on ''FreeBSD'') home_store = (False, home_store) \<and>
   disable (monitor_on ''FreeBSD'') home_store = (False, home_store)"
proof -
  have "system (monitor_on ''FreeBSD'') \<noteq> ''Windows''"
    and "system (monitor_on ''FreeBSD'') \<noteq> ''Linux''"
    and "system (monitor_on ''FreeBSD'') \<noteq> ''Darwin''"
    by (simp_all add: monitor_on_def)
  from unsupported_platform [OF this] show ?thesis by simp
qed

section \<open>Autostart: enabling twice\<close>



section \<open>Autostart: disabling what is absent\<close>

text \<open>
  C8 as stated fails on Windows: when the auto-run key cannot be opened (here it is
  missing, so that no registration exists), \<open>disable\<close> answers false.
\<close>

theorem disable_fails_without_run_key:
  "\<not> spec_registration_exists (monitor_on ''Windows'') (home_store\<lparr>run_key := None\<rparr>) \<and>
   disable (monitor_on ''Windows'') (home_store\<lparr>run_key := None\<rparr>) =
     (False, home_store\<lparr>run_key := None\<rparr>)"
  by (simp add: spec_registration_exists_def disable_def disable_try_def OpenKey_def
      monitor_on_def home_store_def)

text \<open>
  C8 amended. On Linux and macOS, \<open>disable\<close> answers true and changes nothing when the
  desktop file or the property list is absent. On Windows it answers true and changes
  nothing when the auto-run key opens and holds no value named by the application name;
  it answers false when the key cannot be opened. No exception reaches the caller.
\<close>

theorem disable_absent:
  "(system m = ''Linux'' \<longrightarrow> \<not> path_exists st (literal_desktop_file m st) \<longrightarrow>
      disable m st = (True, st)) \<and>
   (system m = ''Darwin'' \<longrightarrow> \<not> path_exists st (literal_plist_path m st) \<longrightarrow>
      disable m st = (True, st)) \<and>
   (system m = ''Windows'' \<longrightarrow>
      (\<forall>k. run_key st = Some k \<longrightarrow> k (app_name m) = None \<longrightarrow> disable m st = (True, st)) \<and>
      (run_key st = None \<longrightarrow> disable m st = (False, st)))"
proof (intro conjI impI allI)
  assume "system m = ''Linux''" and "\<not> path_exists st (literal_desktop_file m st)"
  then show "disable m st = (True, st)"
    by (simp add: disable_Linux path_exists_def Let_def)
next
  assume "system m = ''Darwin''" and "\<not> path_exists st (literal_plist_path m st)"
  then show "disable m st = (True, st)"
    by (simp add: disable_Darwin path_exists_def Let_def)
next
  fix k
  assume "system m = ''Windows''" and "run_key st = Some k" and "k (app_name m) = None"
  then show "disable m st = (True, st)"
    by (simp add: disable_Windows)
next
  assume "system m = ''Windows''" and "run_key st = None"
  then show "disable m st = (False, st)"
    by (simp add: disable_Windows)
qed

theorem disable_absent_witness:
  "\<not> path_exists home_store (literal_desktop_file (monitor_on ''Linux'') home_store) \<and>
   disable (monitor_on ''Linux'') home_store = (True, home_store) \<and>
   \<not> path_exists home_store (literal_plist_path (monitor_on ''Darwin'') home_store) \<and>
   disable (monitor_on ''Darwin'') home_store = (True, home_store) \<and>
   run_key home_store = Some Map.empty \<and>
   disable (monitor_on ''Windows'') home_store = (True, home_store) \<and>
   run_key (home_store\<lparr>run_key := None\<rparr>) = None \<and>
   disable (monitor_on ''Windows'') (home_store\<lparr>run_key := None\<rparr>) =
     (False, home_store\<lparr>run_key := None\<rparr>)"
proof -
  have sl: "system (monitor_on ''Linux'') = ''Linux''"
    and sd: "system (monitor_on ''Darwin'') = ''Darwin''"
    and sw: "system (monitor_on ''Windows'') = ''Windows''"
    by simp_all
  have l: "\<not> path_exists home_store (literal_desktop_file (monitor_on ''Linux'') home_store)"
    and d: "\<not> path_exists home_store (literal_plist_path (monitor_on ''Darwin'') home_store)"
    by (simp_all add: path_exists_def)
  have k: "run_key home_store = Some Map.empty"
    and k': "Map.empty (app_name (monitor_on ''Windows'')) = (None :: reg_value option)"
    and n: "run_key (home_store\<lparr>run_key := None\<rparr>) = None"
    by simp_all
  have 1: "disable (monitor_on ''Linux'') home_store = (True, home_store)"
    by (rule disable_absent [THEN conjunct1, THEN mp, OF sl, THEN mp, OF l])
  have 2: "disable (monitor_on ''Darwin'') home_store = (True, home_store)"
    by (rule disable_absent [THEN conjunct2, THEN conjunct1, THEN mp, OF sd, THEN mp, OF d])
  have 3: "disable (monitor_on ''Windows'') home_store = (True, home_store)"
    by (rule disable_absent [THEN conjunct2, THEN conjunct2, THEN mp, OF sw, THEN conjunct1,
          THEN spec, THEN mp, OF k, THEN mp, OF k'])
  have 4: "disable (monitor_on ''Windows'') (home_store\<lparr>run_key := None\<rparr>) =
     (False, home_store\<lparr>run_key := None\<rparr>)"
    by (rule disable_absent [THEN conjunct2, THEN conjunct2, THEN mp, OF sw, THEN conjunct2,
          THEN mp, OF n])
  from l d k n 1 2 3 4 show ?thesis by blast
qed

section \<open>Autostart: the round trip\<close>

text \<open>
  The application name is fixed when the manager is constructed, and the program
  constructs it with the default name. On Linux \<open>is_enabled\<close> and \<open>enable\<close> join the
  autostart directory and the file name, while \<open>disable\<close> writes the path in one string;
  the two give the same file for every name that does not begin with a slash
  (\<open>desktop_paths_agree\<close>), which is the hypothesis below.
\<close>

text \<open>
  C5. On each platform and from any store, an \<open>enable\<close> that answers true is followed by
  a true \<open>is_enabled\<close>, and a \<open>disable\<close> that answers true is followed by a false
  \<open>is_enabled\<close>.
\<close>

theorem enable_disable_round_trip:
  assumes "app_name m = [] \<or> hd (app_name m) \<noteq> CHR ''/''"
  shows "(enable m st = (True, st') \<longrightarrow> is_enabled m st') \<and>
         (disable m st = (True, st') \<longrightarrow> \<not> is_enabled m st')"
proof (intro conjI impI)
  assume "enable m st = (True, st')"
  then show "is_enabled m st'" by (rule enable_then_enabled)
next
  assume "disable m st = (True, st')"
  then show "\<not> is_enabled m st'" using assms by (rule disable_then_not_enabled)
qed

text \<open>
  The witness runs the manager of the program on Windows, Linux and macOS from the example
  store: \<open>enable\<close> succeeds and \<open>is_enabled\<close> holds in the store it leaves, then
  \<open>disable\<close> succeeds and \<open>is_enabled\<close> fails in the store it leaves.
\<close>

theorem enable_disable_round_trip_witness:
  "enable (monitor_on ''Windows'') home_store =
     (True, home_store\<lparr>run_key := Some [''InternetSpeedMonitor'' \<mapsto> REG_SZ ''/opt/ism/ism.py'']\<rparr>) \<and>
   is_enabled (monitor_on ''Windows'')
     (home_store\<lparr>run_key := Some [''InternetSpeedMonitor'' \<mapsto> REG_SZ ''/opt/ism/ism.py'']\<rparr>) \<and>
   disable (monitor_on ''Windows'')
     (home_store\<lparr>run_key := Some [''InternetSpeedMonitor'' \<mapsto> REG_SZ ''/opt/ism/ism.py'']\<rparr>) =
     (True, home_store) \<and>
   \<not> is_enabled (monitor_on ''Windows'') home_store \<and>
   enable (monitor_on ''Linux'') home_store =
     (True, home_store\<lparr>fs := [''/home/u/.config/autostart'' \<mapsto> Dir,
        ''/home/u/.config/autostart/InternetSpeedMonitor.desktop'' \<mapsto>
          File (desktop_entry (monitor_on ''Linux'')) 493]\<rparr>) \<and>
   is_enabled (monitor_on ''Linux'')
     (home_store\<lparr>fs := [''/home/u/.config/autostart'' \<mapsto> Dir,
        ''/home/u/.config/autostart/InternetSpeedMonitor.desktop'' \<mapsto>
          File (desktop_entry (monitor_on ''Linux'')) 493]\<rparr>) \<and>
   disable (monitor_on ''Linux'')
     (home_store\<lparr>fs := [''/home/u/.config/autostart'' \<mapsto> Dir,
        ''/home/u/.config/autostart/InternetSpeedMonitor.desktop'' \<mapsto>
          File (desktop_entry (monitor_on ''Linux'')) 493]\<rparr>) =
     (True, home_store\<lparr>fs := [''/home/u/.config/autostart'' \<mapsto> Dir]\<rparr>) \<and>
   \<not> is_enabled (monitor_on ''Linux'')
     (home_store\<lparr>fs := [''/home/u/.config/autostart'' \<mapsto> Dir]\<rparr>) \<and>
   enable (monitor_on ''Darwin'') home_store =
     (True, home_store\<lparr>fs := [''/home/u/Library/LaunchAgents'' \<mapsto> Dir,
        ''/home/u/Library/LaunchAgents/com.InternetSpeedMonitor.plist'' \<mapsto>
          File (plist_text (monitor_on ''Darwin'')) 420],
        launchd := {''/home/u/Library/LaunchAgents/com.InternetSpeedMonitor.plist''}\<rparr>) \<and>
   is_enabled (monitor_on ''Darwin'')
     (home_store\<lparr>fs := [''/home/u/Library/LaunchAgents'' \<mapsto> Dir,
        ''/home/u/Library/LaunchAgents/com.InternetSpeedMonitor.plist'' \<mapsto>
          File (plist_text (monitor_on ''Darwin'')) 420],
        launchd := {''/home/u/Library/LaunchAgents/com.InternetSpeedMonitor.plist''}\<rparr>) \<and>
   disable (monitor_on ''Darwin'')
     (home_store\<lparr>fs := [''/home/u/Library/LaunchAgents'' \<mapsto> Dir,
        ''/home/u/Library/LaunchAgents/com.InternetSpeedMonitor.plist'' \<mapsto>
          File (plist_text (monitor_on ''Darwin'')) 420],
        launchd := {''/home/u/Library/LaunchAgents/com.InternetSpeedMonitor.plist''}\<rparr>) =
     (True, home_store\<lparr>fs := [''/home/u/Library/LaunchAgents'' \<mapsto> Dir]\<rparr>) \<and>
   \<not> is_enabled (monitor_on ''Darwin'')
     (home_store\<lparr>fs := [''/home/u/Library/LaunchAgents'' \<mapsto> Dir]\<rparr>)"
proof -
  have n: "app_name (monitor_on sys) = [] \<or> hd (app_name (monitor_on sys)) \<noteq> CHR ''/''" for sys
    by simp
  note on = enable_disable_round_trip [OF n, THEN conjunct1, THEN mp]
  note off = enable_disable_round_trip [OF n, THEN conjunct2, THEN mp]
  note ew = example_enable_Windows and el = example_enable_Linux and ed = example_enable_Darwin
  note dw = example_disable_Windows and dl = example_disable_Linux and dd = example_disable_Darwin
  from ew on [OF ew] dw off [OF dw] el on [OF el] dl off [OF dl] ed on [OF ed] dd off [OF dd]
  show ?thesis by blast
qed

end
